theory Spec2Isabelle
  imports Main "HOL-Library.Sublist"
begin

section \<open>Python values, exceptions and signatures\<close>

text \<open>
  The module \<^verbatim>\<open>slash.py\<close> defines one class, \<^verbatim>\<open>CommandCreator\<close>. Its methods work on
  Python objects, on exceptions and on the signatures that \<^verbatim>\<open>inspect.signature\<close> reads
  from a handler. This section fixes how these are represented.

  An exception is either an instance of \<^verbatim>\<open>Exception\<close> or an instance of
  \<^verbatim>\<open>BaseException\<close> outside \<^verbatim>\<open>Exception\<close> (\<^verbatim>\<open>KeyboardInterrupt\<close>, \<^verbatim>\<open>SystemExit\<close>,
  \<^verbatim>\<open>asyncio.CancelledError\<close>). Both carry the class name and the text of \<^verbatim>\<open>str(e)\<close>.
  The clause \<^verbatim>\<open>except Exception as e\<close> catches the first kind only.
\<close>

datatype exn = Exc string string | BaseExc string string

fun is_Exception :: "exn \<Rightarrow> bool" where
  "is_Exception (Exc cls txt) = True"
| "is_Exception (BaseExc cls txt) = False"

fun str_exn :: "exn \<Rightarrow> string" where
  "str_exn (Exc cls txt) = txt"
| "str_exn (BaseExc cls txt) = txt"

text \<open>
  Values that a handler can declare as a default, and the values bound at a call: the
  latter are the constants and the reference to the invocation's \<^verbatim>\<open>Interaction\<close> or
  \<^verbatim>\<open>Context\<close> object (\<open>VCtx\<close>), whose state is threaded separately.
\<close>

datatype pyconst = CNone | CBool bool | CInt int | CStr string

datatype pyval = VCtx | Val pyconst

text \<open>\<^verbatim>\<open>str(n)\<close> for a Python integer: decimal digits, with a leading minus sign.\<close>

function str_nat :: "nat \<Rightarrow> string" where
  "str_nat n = (if n < 10 then [''0123456789'' ! n]
                else str_nat (n div 10) @ [''0123456789'' ! (n mod 10)])"
  by pat_completeness auto
termination
  by (relation "measure id") auto

declare str_nat.simps [simp del]

definition str_int :: "int \<Rightarrow> string" where
  "str_int i = (if i < 0 then ''-'' @ str_nat (nat (- i)) else str_nat (nat i))"

fun str_const :: "pyconst \<Rightarrow> string" where
  "str_const CNone = ''None''"
| "str_const (CBool b) = (if b then ''True'' else ''False'')"
| "str_const (CInt i) = str_int i"
| "str_const (CStr s) = s"

text \<open>
  A parameter as \<^verbatim>\<open>inspect.Parameter\<close> gives it: its name, its annotation
  (\<^verbatim>\<open>Parameter.empty\<close> or a class, identified by its \<^verbatim>\<open>__name__\<close>) and its default
  (\<open>None\<close> stands for \<^verbatim>\<open>Parameter.empty\<close>). Handlers are plain \<^verbatim>\<open>async def\<close> functions
  whose parameters are all positional-or-keyword, as every handler of the module is.
\<close>

datatype annotation = Empty | Ty string

record param =
  p_name :: string
  p_annotation :: annotation
  p_default :: "pyconst option"

text \<open>
  The keys of the dictionary \<^verbatim>\<open>self.converters\<close>. Python does not enforce the hint
  \<^verbatim>\<open>Dict[Type, Callable]\<close>, and the wrappers test parameter names (strings) for
  membership, so a key is an annotation object or a string.
\<close>

datatype pykey = KAnn annotation | KStr string

text \<open>
  \<^verbatim>\<open>repr\<close> of a key, the text of a \<^verbatim>\<open>KeyError\<close>. A class prints as
  \<^verbatim>\<open><class 'module.name'>\<close>, without the module for a builtin; the two classes of
  discord.py that the handlers annotate with live in \<^verbatim>\<open>discord.interactions\<close> and
  \<^verbatim>\<open>discord.ext.commands.context\<close>, every other name is taken for a builtin's. A string
  prints in single quotes (the strings looked up are parameter names).
\<close>

definition quoted :: "string \<Rightarrow> string" where
  "quoted s = [CHR 0x27] @ s @ [CHR 0x27]"

definition qualified_name :: "string \<Rightarrow> string" where
  "qualified_name n =
     (if n = ''Interaction'' then ''discord.interactions.Interaction''
      else if n = ''Context'' then ''discord.ext.commands.context.Context''
      else n)"

fun repr_key :: "pykey \<Rightarrow> string" where
  "repr_key (KAnn Empty) = ''<class '' @ quoted ''inspect._empty'' @ ''>''"
| "repr_key (KAnn (Ty n)) = ''<class '' @ quoted (qualified_name n) @ ''>''"
| "repr_key (KStr s) = quoted s"

section \<open>The invocation context\<close>

text \<open>
  The object a wrapper receives from discord.py is a \<^verbatim>\<open>discord.Interaction\<close> (slash
  commands) or a \<^verbatim>\<open>commands.Context\<close> (message commands). The module uses three of its
  operations: \<^verbatim>\<open>ctx.response.is_done()\<close>, \<^verbatim>\<open>ctx.response.send_message(text)\<close> and
  \<^verbatim>\<open>ctx.send(text)\<close>. The state records whether an interaction has been responded to
  and the texts delivered so far; the transport below discord.py is not part of the
  module. An interaction accepts one response: \<^verbatim>\<open>send_message\<close> on a responded
  interaction raises \<^verbatim>\<open>InteractionResponded\<close>.
\<close>

datatype ctx_kind = Interaction | Context

record ctx =
  kind :: ctx_kind
  is_done :: bool
  sent :: "string list"

type_synonym outcome = "exn option \<times> ctx"

definition response_send_message :: "string \<Rightarrow> ctx \<Rightarrow> outcome" where
  "response_send_message txt c =
     (if is_done c
      then (Some (Exc ''InteractionResponded''
                    ''This interaction has already been responded to before''), c)
      else (None, c\<lparr>is_done := True, sent := sent c @ [txt]\<rparr>))"

definition send :: "string \<Rightarrow> ctx \<Rightarrow> outcome" where
  "send txt c = (None, c\<lparr>sent := sent c @ [txt]\<rparr>)"

section \<open>The state of a CommandCreator\<close>

text \<open>
  A handler is the decorated \<^verbatim>\<open>async def\<close>: the parameters \<^verbatim>\<open>inspect.signature\<close> reads
  and its body, which receives the positional and keyword arguments of the call, acts on
  the context and returns or raises. A converter is a synchronous callable; a custom error
  handler is awaited with \<^verbatim>\<open>(error, ctx)\<close>.
\<close>

type_synonym kwargs = "(string \<times> pyval) list"

record handler =
  signature :: "param list"
  body :: "pyval list \<Rightarrow> kwargs \<Rightarrow> ctx \<Rightarrow> outcome"

type_synonym converter = "pyval \<Rightarrow> exn + pyval"

type_synonym error_sink = "exn \<Rightarrow> ctx \<Rightarrow> outcome"

text \<open>
  An entry of \<^verbatim>\<open>self.commands\<close>. A slash entry is the dictionary
  \<^verbatim>\<open>{"type", "description", "func"}\<close>, a message entry has the key \<^verbatim>\<open>"aliases"\<close> too:
  \<open>aliases = None\<close> stands for the missing key, \<open>description = None\<close> for the value
  \<^verbatim>\<open>None\<close>.
\<close>

datatype cmd_type = Slash | Message

record command_data =
  cmd_type :: cmd_type
  aliases :: "string list option"
  description :: "string option"
  func :: handler

text \<open>
  \<^verbatim>\<open>self.bot\<close> and \<^verbatim>\<open>self.tree\<close> belong to discord.py; their state is the field
  \<open>framework\<close> of an arbitrary type. The two registration calls the decorators make,
  \<^verbatim>\<open>self.tree.command(name=, description=)\<close> and
  \<^verbatim>\<open>self.bot.command(name=, aliases=, description=)\<close>, are parameters: each returns
  the new framework state and may raise.
\<close>

record 'fw command_creator =
  framework :: 'fw
  commands :: "string \<Rightarrow> command_data option"
  converters :: "pykey \<Rightarrow> converter option"
  error_handler :: "error_sink option"

record 'fw discord_py =
  tree_command :: "string \<Rightarrow> string \<Rightarrow> 'fw \<Rightarrow> exn option \<times> 'fw"
  bot_command :: "string \<Rightarrow> string list \<Rightarrow> string option \<Rightarrow> 'fw \<Rightarrow> exn option \<times> 'fw"

text \<open>\<^verbatim>\<open>__init__\<close>: no commands, no converters, no error handler.\<close>

definition init :: "'fw \<Rightarrow> 'fw command_creator" where
  "init fw = \<lparr>framework = fw, commands = Map.empty, converters = Map.empty,
              error_handler = None\<rparr>"

definition register_converter ::
  "pykey \<Rightarrow> converter \<Rightarrow> 'fw command_creator \<Rightarrow> 'fw command_creator" where
  "register_converter ty conv cr = cr\<lparr>converters := (converters cr)(ty \<mapsto> conv)\<rparr>"

definition set_error_handler ::
  "error_sink \<Rightarrow> 'fw command_creator \<Rightarrow> 'fw command_creator" where
  "set_error_handler h cr = cr\<lparr>error_handler := Some h\<rparr>"

text \<open>
  \<^verbatim>\<open>_handle_error\<close>: the custom handler if one is set; otherwise a reply
  \<^verbatim>\<open>f"Error: {str(error)}"\<close>, which an interaction gets only while it is not done.
\<close>

definition handle_error :: "'fw command_creator \<Rightarrow> exn \<Rightarrow> ctx \<Rightarrow> outcome" where
  "handle_error cr error c =
     (case error_handler cr of
        Some h \<Rightarrow> h error c
      | None \<Rightarrow>
          (if kind c = Interaction
           then (if \<not> is_done c
                 then response_send_message (''Error: '' @ str_exn error) c
                 else (None, c))
           else send (''Error: '' @ str_exn error) c))"

section \<open>Binding arguments to a signature\<close>

text \<open>
  The wrappers call \<^verbatim>\<open>sig.bind(ctx, *args, **kwargs)\<close>, \<^verbatim>\<open>bound.apply_defaults()\<close>,
  \<^verbatim>\<open>bound.args\<close> and \<^verbatim>\<open>bound.kwargs\<close> of the standard module \<^verbatim>\<open>inspect\<close>. They are
  modelled for positional-or-keyword parameters. \<^verbatim>\<open>bound.arguments\<close> is an ordered
  dictionary: an association list with distinct keys.

  \<^verbatim>\<open>bind\<close> first pairs the positional arguments with the leading parameters; when the
  arguments run out, the next parameter must be given by keyword or have a default. It
  then takes the remaining parameters from the keywords, and refuses a keyword that is
  left over.
\<close>

type_synonym arguments = "(string \<times> pyval) list"

definition type_error :: "string \<Rightarrow> exn" where
  "type_error txt = Exc ''TypeError'' txt"

definition key_error :: "pykey \<Rightarrow> exn" where
  "key_error k = Exc ''KeyError'' (repr_key k)"

fun bind_positional ::
  "param list \<Rightarrow> pyval list \<Rightarrow> kwargs \<Rightarrow> arguments \<Rightarrow> exn + (arguments \<times> param list)" where
  "bind_positional [] [] kw acc = Inr (acc, [])"
| "bind_positional (p # ps) [] kw acc =
     (if p_name p \<in> fst ` set kw then Inr (acc, p # ps)
      else if p_default p \<noteq> None then Inr (acc, p # ps)
      else Inl (type_error (''missing a required argument: '' @ quoted (p_name p))))"
| "bind_positional [] (v # vs) kw acc = Inl (type_error ''too many positional arguments'')"
| "bind_positional (p # ps) (v # vs) kw acc =
     (if p_name p \<in> fst ` set kw
      then Inl (type_error (''multiple values for argument '' @ quoted (p_name p)))
      else bind_positional ps vs kw (acc @ [(p_name p, v)]))"

fun bind_keywords ::
  "param list \<Rightarrow> kwargs \<Rightarrow> arguments \<Rightarrow> exn + (arguments \<times> kwargs)" where
  "bind_keywords [] kw acc = Inr (acc, kw)"
| "bind_keywords (p # ps) kw acc =
     (case map_of kw (p_name p) of
        None \<Rightarrow>
          (if p_default p = None
           then Inl (type_error (''missing a required argument: '' @ quoted (p_name p)))
           else bind_keywords ps kw acc)
      | Some v \<Rightarrow>
          bind_keywords ps (filter (\<lambda>kv. fst kv \<noteq> p_name p) kw) (acc @ [(p_name p, v)]))"

definition sig_bind :: "param list \<Rightarrow> pyval list \<Rightarrow> kwargs \<Rightarrow> exn + arguments" where
  "sig_bind sig args kw =
     (case bind_positional sig args kw [] of
        Inl e \<Rightarrow> Inl e
      | Inr (acc, rest) \<Rightarrow>
          (case bind_keywords rest kw acc of
             Inl e \<Rightarrow> Inl e
           | Inr (acc', []) \<Rightarrow> Inr acc'
           | Inr (acc', kv # left) \<Rightarrow>
               Inl (type_error (''got an unexpected keyword argument '' @ quoted (fst kv)))))"

fun apply_defaults :: "param list \<Rightarrow> arguments \<Rightarrow> arguments" where
  "apply_defaults [] a = []"
| "apply_defaults (p # ps) a =
     (case map_of a (p_name p) of
        Some v \<Rightarrow> (p_name p, v) # apply_defaults ps a
      | None \<Rightarrow>
          (case p_default p of
             Some d \<Rightarrow> (p_name p, Val d) # apply_defaults ps a
           | None \<Rightarrow> apply_defaults ps a))"

text \<open>\<^verbatim>\<open>bound.arguments[name] = value\<close>: an existing key keeps its position.\<close>

fun dict_set :: "arguments \<Rightarrow> string \<Rightarrow> pyval \<Rightarrow> arguments" where
  "dict_set [] k v = [(k, v)]"
| "dict_set (kv # a) k v = (if fst kv = k then (k, v) # a else kv # dict_set a k v)"

text \<open>
  \<^verbatim>\<open>bound.args\<close> collects the values of the parameters up to the first one without a
  bound value; \<^verbatim>\<open>bound.kwargs\<close> collects the bound parameters after that one.
\<close>

fun bound_args :: "param list \<Rightarrow> arguments \<Rightarrow> pyval list" where
  "bound_args [] a = []"
| "bound_args (p # ps) a =
     (case map_of a (p_name p) of None \<Rightarrow> [] | Some v \<Rightarrow> v # bound_args ps a)"

fun bound_kwargs :: "bool \<Rightarrow> param list \<Rightarrow> arguments \<Rightarrow> kwargs" where
  "bound_kwargs started [] a = []"
| "bound_kwargs started (p # ps) a =
     (case map_of a (p_name p) of
        None \<Rightarrow> bound_kwargs True ps a
      | Some v \<Rightarrow>
          (if started then (p_name p, v) # bound_kwargs True ps a
           else bound_kwargs False ps a))"

section \<open>The wrappers\<close>

text \<open>
  The loop of both wrappers:
  \<^verbatim>\<open>
  for name_, param in sig.parameters.items():
      if name_ in self.converters:
          value = bound.arguments[name_]
          bound.arguments[name_] = self.converters[param.annotation](value)
  \<close>
  The membership test is on the parameter's name, the lookup on its annotation; a missing
  key raises \<^verbatim>\<open>KeyError\<close>, and a converter may raise.
\<close>

fun apply_converters ::
  "(pykey \<Rightarrow> converter option) \<Rightarrow> param list \<Rightarrow> arguments \<Rightarrow> exn + arguments" where
  "apply_converters cv [] a = Inr a"
| "apply_converters cv (p # ps) a =
     (if cv (KStr (p_name p)) \<noteq> None
      then (case map_of a (p_name p) of
              None \<Rightarrow> Inl (key_error (KStr (p_name p)))
            | Some v \<Rightarrow>
                (case cv (KAnn (p_annotation p)) of
                   None \<Rightarrow> Inl (key_error (KAnn (p_annotation p)))
                 | Some conv \<Rightarrow>
                     (case conv v of
                        Inl e \<Rightarrow> Inl e
                      | Inr v' \<Rightarrow> apply_converters cv ps (dict_set a (p_name p) v'))))
      else apply_converters cv ps a)"

text \<open>
  The statements before the call of the handler: the arguments the handler is called
  with, or the exception raised on the way.
\<close>

definition prepare_call ::
  "'fw command_creator \<Rightarrow> handler \<Rightarrow> pyval list \<Rightarrow> kwargs \<Rightarrow> exn + (pyval list \<times> kwargs)" where
  "prepare_call cr f args kw =
     (case sig_bind (signature f) (VCtx # args) kw of
        Inl e \<Rightarrow> Inl e
      | Inr bound \<Rightarrow>
          (case apply_converters (converters cr) (signature f)
                  (apply_defaults (signature f) bound) of
             Inl e \<Rightarrow> Inl e
           | Inr bound' \<Rightarrow>
               Inr (bound_args (signature f) bound', bound_kwargs False (signature f) bound')))"

text \<open>The body of the \<^verbatim>\<open>try\<close> block, ending with \<^verbatim>\<open>await func(*bound.args, **bound.kwargs)\<close>.\<close>

definition try_block ::
  "'fw command_creator \<Rightarrow> handler \<Rightarrow> pyval list \<Rightarrow> kwargs \<Rightarrow> ctx \<Rightarrow> outcome" where
  "try_block cr f args kw c =
     (case prepare_call cr f args kw of
        Inl e \<Rightarrow> (Some e, c)
      | Inr (pos, named) \<Rightarrow> body f pos named c)"

text \<open>
  \<^verbatim>\<open>try: ... except Exception as e: await self._handle_error(e, ctx)\<close>. The two wrappers
  have the same text; the slash wrapper is called with an \<^verbatim>\<open>Interaction\<close>, the message
  wrapper with a \<^verbatim>\<open>Context\<close>.

  The functions take what the body of \<^verbatim>\<open>wrapper(ctx, *args, **kwargs)\<close> starts from:
  the context, the further positional arguments collected in \<^verbatim>\<open>args\<close> and the keywords
  collected in \<^verbatim>\<open>kwargs\<close>. A call that cannot be bound to the wrapper's own parameters
  (no context, or the keyword \<^verbatim>\<open>interaction\<close> or \<^verbatim>\<open>ctx\<close> next to the positional
  context) is refused by Python before the body and its \<^verbatim>\<open>try\<close> block are entered: it
  is not an invocation, and \<^verbatim>\<open>kwargs\<close> never holds the name of the wrapper's first
  parameter.
\<close>

definition slash_wrapper ::
  "'fw command_creator \<Rightarrow> handler \<Rightarrow> pyval list \<Rightarrow> kwargs \<Rightarrow> ctx \<Rightarrow> outcome" where
  "slash_wrapper cr f args kw interaction =
     (case try_block cr f args kw interaction of
        (None, c') \<Rightarrow> (None, c')
      | (Some e, c') \<Rightarrow>
          (if is_Exception e then handle_error cr e c' else (Some e, c')))"

definition message_wrapper ::
  "'fw command_creator \<Rightarrow> handler \<Rightarrow> pyval list \<Rightarrow> kwargs \<Rightarrow> ctx \<Rightarrow> outcome" where
  "message_wrapper cr f args kw c =
     (case try_block cr f args kw c of
        (None, c') \<Rightarrow> (None, c')
      | (Some e, c') \<Rightarrow>
          (if is_Exception e then handle_error cr e c' else (Some e, c')))"

section \<open>Registration\<close>

text \<open>
  \<^verbatim>\<open>slash_command(name, description=None)\<close> raises \<^verbatim>\<open>ValueError\<close> when the description
  is falsy (\<^verbatim>\<open>None\<close> or the empty string) and otherwise returns the decorator. The
  decorator registers the wrapper with \<^verbatim>\<open>self.tree.command\<close> and then stores the entry
  \<^verbatim>\<open>self.commands[name] = {"type": "slash", "description": description, "func": func}\<close>.
\<close>

definition slash_decorator ::
  "'fw discord_py \<Rightarrow> string \<Rightarrow> string \<Rightarrow> handler \<Rightarrow> 'fw command_creator
     \<Rightarrow> exn option \<times> 'fw command_creator" where
  "slash_decorator api name descr f cr =
     (case tree_command api name descr (framework cr) of
        (Some e, fw') \<Rightarrow> (Some e, cr\<lparr>framework := fw'\<rparr>)
      | (None, fw') \<Rightarrow>
          (None, cr\<lparr>framework := fw',
                    commands := (commands cr)(name \<mapsto>
                      \<lparr>cmd_type = Slash, aliases = None, description = Some descr,
                       func = f\<rparr>)\<rparr>))"

definition slash_command ::
  "'fw discord_py \<Rightarrow> string \<Rightarrow> string option \<Rightarrow> 'fw command_creator
     \<Rightarrow> (exn + (handler \<Rightarrow> 'fw command_creator \<Rightarrow> exn option \<times> 'fw command_creator))
         \<times> 'fw command_creator" where
  "slash_command api name descr cr =
     (case descr of
        None \<Rightarrow> (Inl (Exc ''ValueError'' ''Description is required for slash commands.''), cr)
      | Some d \<Rightarrow>
          (if d = []
           then (Inl (Exc ''ValueError'' ''Description is required for slash commands.''), cr)
           else (Inr (slash_decorator api name d), cr)))"

text \<open>
  \<^verbatim>\<open>message_command(name, aliases=None, description=None)\<close> checks nothing. Its decorator
  registers the wrapper with \<^verbatim>\<open>self.bot.command\<close> and stores an entry with
  \<^verbatim>\<open>"aliases": aliases or []\<close> and the description as given.
\<close>

definition or_empty :: "string list option \<Rightarrow> string list" where
  "or_empty al = (case al of None \<Rightarrow> [] | Some xs \<Rightarrow> xs)"

definition message_decorator ::
  "'fw discord_py \<Rightarrow> string \<Rightarrow> string list option \<Rightarrow> string option \<Rightarrow> handler
     \<Rightarrow> 'fw command_creator \<Rightarrow> exn option \<times> 'fw command_creator" where
  "message_decorator api name al descr f cr =
     (case bot_command api name (or_empty al) descr (framework cr) of
        (Some e, fw') \<Rightarrow> (Some e, cr\<lparr>framework := fw'\<rparr>)
      | (None, fw') \<Rightarrow>
          (None, cr\<lparr>framework := fw',
                    commands := (commands cr)(name \<mapsto>
                      \<lparr>cmd_type = Message, aliases = Some (or_empty al), description = descr,
                       func = f\<rparr>)\<rparr>))"

definition message_command ::
  "'fw discord_py \<Rightarrow> string \<Rightarrow> string list option \<Rightarrow> string option \<Rightarrow> 'fw command_creator
     \<Rightarrow> (exn + (handler \<Rightarrow> 'fw command_creator \<Rightarrow> exn option \<times> 'fw command_creator))
         \<times> 'fw command_creator" where
  "message_command api name al descr cr = (Inr (message_decorator api name al descr), cr)"

section \<open>Help texts\<close>

text \<open>\<^verbatim>\<open>sep.join(xs)\<close>.\<close>

fun join :: "string \<Rightarrow> string list \<Rightarrow> string" where
  "join sep [] = []"
| "join sep [x] = x"
| "join sep (x # y # ys) = x @ sep @ join sep (y # ys)"

text \<open>
  The line of one parameter:
  \<^verbatim>\<open>f"- `{name}`: {param_type} ({default_str}){converter_note}"\<close>.
\<close>

definition param_type :: "param \<Rightarrow> string" where
  "param_type p = (case p_annotation p of Ty n \<Rightarrow> n | Empty \<Rightarrow> ''Any'')"

definition default_str :: "param \<Rightarrow> string" where
  "default_str p =
     (case p_default p of
        None \<Rightarrow> ''Required''
      | Some d \<Rightarrow> ''Optional (default: '' @ str_const d @ '')'')"

definition converter_note :: "(pykey \<Rightarrow> converter option) \<Rightarrow> param \<Rightarrow> string" where
  "converter_note cv p =
     (if cv (KAnn (p_annotation p)) \<noteq> None then '' (Custom converter available)'' else [])"

definition param_line :: "(pykey \<Rightarrow> converter option) \<Rightarrow> param \<Rightarrow> string" where
  "param_line cv p =
     ''- `'' @ p_name p @ ''`: '' @ param_type p @ '' ('' @ default_str p @ '')''
       @ converter_note cv p"

text \<open>
  The loop over the parameters skips the names \<^verbatim>\<open>'self'\<close>, \<^verbatim>\<open>'ctx'\<close> and
  \<^verbatim>\<open>'interaction'\<close>; it runs when \<^verbatim>\<open>len(params) > 1\<close>, after the line
  \<^verbatim>\<open>"\nArguments:"\<close>.
\<close>

definition skipped :: "param \<Rightarrow> bool" where
  "skipped p = (p_name p \<in> {''self'', ''ctx'', ''interaction''})"

definition argument_lines :: "(pykey \<Rightarrow> converter option) \<Rightarrow> param list \<Rightarrow> string list" where
  "argument_lines cv params =
     (if length params > 1
      then (CHR 0x0A # ''Arguments:'') # map (param_line cv) (filter (\<lambda>p. \<not> skipped p) params)
      else [])"

definition description_lines :: "command_data \<Rightarrow> string list" where
  "description_lines cd =
     (case description cd of
        None \<Rightarrow> []
      | Some d \<Rightarrow> (if d \<noteq> [] then [''Description: '' @ d] else []))"

definition aliases_lines :: "command_data \<Rightarrow> string list" where
  "aliases_lines cd =
     (case aliases cd of
        None \<Rightarrow> []
      | Some al \<Rightarrow> (if al \<noteq> [] then [''Aliases: '' @ join '', '' al] else []))"

definition help_message ::
  "(pykey \<Rightarrow> converter option) \<Rightarrow> string \<Rightarrow> command_data \<Rightarrow> string list" where
  "help_message cv command_name cd =
     [''**'' @ command_name @ ''**'']
     @ (case cmd_type cd of
          Slash \<Rightarrow> [''Type: Slash Command''] @ description_lines cd
        | Message \<Rightarrow> [''Type: Message Command''] @ description_lines cd @ aliases_lines cd)
     @ argument_lines cv (signature (func cd))"

definition generate_help :: "'fw command_creator \<Rightarrow> string \<Rightarrow> string" where
  "generate_help cr command_name =
     (case commands cr command_name of
        None \<Rightarrow> ''Command not found.''
      | Some cd \<Rightarrow> join [CHR 0x0A] (help_message (converters cr) command_name cd))"

section \<open>The commands of the module's example\<close>

text \<open>
  The operations of the example handlers. \<^verbatim>\<open>type(v).__name__\<close> of a value; the context
  object is an \<^verbatim>\<open>Interaction\<close> or a \<^verbatim>\<open>Context\<close>.
\<close>

fun type_name :: "ctx_kind \<Rightarrow> pyval \<Rightarrow> string" where
  "type_name k VCtx = (case k of Interaction \<Rightarrow> ''Interaction'' | Context \<Rightarrow> ''Context'')"
| "type_name k (Val CNone) = ''NoneType''"
| "type_name k (Val (CBool b)) = ''bool''"
| "type_name k (Val (CInt i)) = ''int''"
| "type_name k (Val (CStr s)) = ''str''"

text \<open>The integer a value stands for in arithmetic: \<^verbatim>\<open>bool\<close> is a subclass of \<^verbatim>\<open>int\<close>.\<close>

fun as_int :: "pyval \<Rightarrow> int option" where
  "as_int (Val (CInt i)) = Some i"
| "as_int (Val (CBool b)) = Some (if b then 1 else 0)"
| "as_int (Val CNone) = None"
| "as_int (Val (CStr s)) = None"
| "as_int VCtx = None"

text \<open>
  \<^verbatim>\<open>x + y\<close>: the sum of two integers, the concatenation of two strings, and otherwise
  a \<^verbatim>\<open>TypeError\<close>, whose text is
  \<^verbatim>\<open>can only concatenate str (not "T") to str\<close> when the left operand is a string and
  \<^verbatim>\<open>unsupported operand type(s) for +: 'S' and 'T'\<close> when it is not.
\<close>

definition py_add :: "ctx_kind \<Rightarrow> pyval \<Rightarrow> pyval \<Rightarrow> exn + pyconst" where
  "py_add k x y =
     (case (as_int x, as_int y) of
        (Some i, Some j) \<Rightarrow> Inr (CInt (i + j))
      | _ \<Rightarrow>
          (case x of
             Val (CStr s) \<Rightarrow>
               (case y of
                  Val (CStr t) \<Rightarrow> Inr (CStr (s @ t))
                | _ \<Rightarrow>
                    Inl (type_error (''can only concatenate str (not '' @ [CHR 0x22]
                           @ type_name k y @ [CHR 0x22] @ '') to str'')))
           | _ \<Rightarrow>
               Inl (type_error (''unsupported operand type(s) for +: ''
                      @ quoted (type_name k x) @ '' and '' @ quoted (type_name k y)))))"

text \<open>
  The example at the end of the module registers
  \<^verbatim>\<open>
  async def add_slash(interaction: discord.Interaction, a: int, b: int):
      await interaction.response.send_message(f"The sum is: {a + b}")

  async def add_message(ctx: commands.Context, a: int, b: int):
      await ctx.send(f"The sum is: {a + b}")
  \<close>
  Python does not check the annotations: the handlers add whatever they are given (the
  message wrapper receives the words of the message as strings, which are concatenated).
  The attribute \<^verbatim>\<open>response\<close> or \<^verbatim>\<open>send\<close> is read from the first argument before the
  sum is formed; a first argument that is not the context object has no such attribute.
  A wrapper calls its handler with one positional argument for each parameter and with
  no keywords (lemma \<open>prepare_call_shape\<close> below). The last case of each body stands
  for every other call, which no wrapper makes, and answers it with a \<^verbatim>\<open>TypeError\<close>.
\<close>

definition add_slash :: handler where
  "add_slash =
     \<lparr>signature =
        [\<lparr>p_name = ''interaction'', p_annotation = Ty ''Interaction'', p_default = None\<rparr>,
         \<lparr>p_name = ''a'', p_annotation = Ty ''int'', p_default = None\<rparr>,
         \<lparr>p_name = ''b'', p_annotation = Ty ''int'', p_default = None\<rparr>],
      body = (\<lambda>pos named c.
        (case (pos, named) of
           ([VCtx, a, b], []) \<Rightarrow>
             (case py_add (kind c) a b of
                Inl e \<Rightarrow> (Some e, c)
              | Inr v \<Rightarrow> response_send_message (''The sum is: '' @ str_const v) c)
         | ([Val v, a, b], []) \<Rightarrow>
             (Some (Exc ''AttributeError''
                      (quoted (type_name (kind c) (Val v)) @ '' object has no attribute ''
                         @ quoted ''response'')), c)
         | _ \<Rightarrow> (Some (type_error ''add_slash() takes 3 positional arguments''), c)))\<rparr>"

definition add_message :: handler where
  "add_message =
     \<lparr>signature =
        [\<lparr>p_name = ''ctx'', p_annotation = Ty ''Context'', p_default = None\<rparr>,
         \<lparr>p_name = ''a'', p_annotation = Ty ''int'', p_default = None\<rparr>,
         \<lparr>p_name = ''b'', p_annotation = Ty ''int'', p_default = None\<rparr>],
      body = (\<lambda>pos named c.
        (case (pos, named) of
           ([VCtx, a, b], []) \<Rightarrow>
             (case py_add (kind c) a b of
                Inl e \<Rightarrow> (Some e, c)
              | Inr v \<Rightarrow> send (''The sum is: '' @ str_const v) c)
         | ([Val v, a, b], []) \<Rightarrow>
             (Some (Exc ''AttributeError''
                      (quoted (type_name (kind c) (Val v)) @ '' object has no attribute ''
                         @ quoted ''send'')), c)
         | _ \<Rightarrow> (Some (type_error ''add_message() takes 3 positional arguments''), c)))\<rparr>"

text \<open>
  A further handler, with defaults and an unannotated parameter, for the help texts: its
  signature is \<^verbatim>\<open>greet(ctx, name: str = "world", times=2)\<close>. Called with the context, a
  string and an integer it sends the greeting \<^verbatim>\<open>times\<close> times in one message; it answers
  every other call with a \<^verbatim>\<open>TypeError\<close>.
\<close>

definition greet :: handler where
  "greet =
     \<lparr>signature =
        [\<lparr>p_name = ''ctx'', p_annotation = Empty, p_default = None\<rparr>,
         \<lparr>p_name = ''name'', p_annotation = Ty ''str'', p_default = Some (CStr ''world'')\<rparr>,
         \<lparr>p_name = ''times'', p_annotation = Empty, p_default = Some (CInt 2)\<rparr>],
      body = (\<lambda>pos named c.
        (case (pos, named) of
           ([VCtx, Val (CStr n), Val (CInt k)], []) \<Rightarrow>
             send (concat (replicate (nat k) (''Hello, '' @ n @ ''! ''))) c
         | _ \<Rightarrow> (Some (type_error ''unsupported operand''), c)))\<rparr>"

text \<open>
  The converter \<^verbatim>\<open>lambda v: v * 2\<close>: it doubles an integer, repeats a string, and raises
  \<^verbatim>\<open>TypeError\<close> for \<^verbatim>\<open>None\<close> and for the context object (an interaction, where the
  text names the class).
\<close>

definition double :: converter where
  "double v =
     (case as_int v of
        Some i \<Rightarrow> Inr (Val (CInt (i * 2)))
      | None \<Rightarrow>
          (case v of
             Val (CStr s) \<Rightarrow> Inr (Val (CStr (s @ s)))
           | _ \<Rightarrow>
               Inl (type_error (''unsupported operand type(s) for *: ''
                      @ quoted (type_name Interaction v) @ '' and '' @ quoted ''int''))))"

text \<open>A converter that ends the process: \<^verbatim>\<open>raise SystemExit\<close>.\<close>

definition exiting :: converter where
  "exiting v = Inl (BaseExc ''SystemExit'' [])"

text \<open>
  A framework state for the examples: the names registered with the command tree and
  with the bot. It refuses a name that the same registry already holds, as the two
  registries of discord.py do (\<^verbatim>\<open>CommandAlreadyRegistered\<close>,
  \<^verbatim>\<open>CommandRegistrationError\<close>), and accepts every other registration.
\<close>

definition recording :: "(string list \<times> string list) discord_py" where
  "recording =
     \<lparr>tree_command = (\<lambda>name descr (tree, bot).
        if name \<in> set tree
        then (Some (Exc ''CommandAlreadyRegistered''
                      (''Command '' @ quoted name @ '' already registered.'')), (tree, bot))
        else (None, (name # tree, bot))),
      bot_command = (\<lambda>name al descr (tree, bot).
        if name \<in> set bot
        then (Some (Exc ''CommandRegistrationError''
                      (''The command '' @ name @ '' is already an existing command or alias.'')),
              (tree, bot))
        else (None, (tree, name # bot)))\<rparr>"

text \<open>A handler that takes the context only and raises the exception given.\<close>

definition raising :: "exn \<Rightarrow> handler" where
  "raising e =
     \<lparr>signature = [\<lparr>p_name = ''ctx'', p_annotation = Empty, p_default = None\<rparr>],
      body = (\<lambda>pos named c. (Some e, c))\<rparr>"

text \<open>A custom error handler that answers the interaction with the error's text.\<close>

definition reporting :: error_sink where
  "reporting e c = response_send_message (''Sorry: '' @ str_exn e) c"

text \<open>A custom error handler that itself raises.\<close>

definition broken :: error_sink where
  "broken e c = (Some (Exc ''RuntimeError'' ''handler broke''), c)"

text \<open>A fresh interaction, a responded one, and a fresh message context.\<close>

definition fresh_interaction :: ctx where
  "fresh_interaction = \<lparr>kind = Interaction, is_done = False, sent = []\<rparr>"

definition done_interaction :: ctx where
  "done_interaction = \<lparr>kind = Interaction, is_done = True, sent = [''ok'']\<rparr>"

definition fresh_context :: ctx where
  "fresh_context = \<lparr>kind = Context, is_done = False, sent = []\<rparr>"



definition message_add_creator :: "(string list \<times> string list) command_creator" where
  "message_add_creator =
     snd (message_decorator recording ''add'' (Some [''sum'']) (Some ''Adds two numbers'')
            add_message (init ([], [])))"

definition slash_add_creator :: "(string list \<times> string list) command_creator" where
  "slash_add_creator =
     snd (slash_decorator recording ''add'' ''Adds two numbers'' add_slash (init ([], [])))"

text \<open>
  The creator with the message command \<^verbatim>\<open>add\<close> after the bot has dropped the command
  (\<^verbatim>\<open>bot.remove_command("add")\<close>): the name is still a key of \<^verbatim>\<open>self.commands\<close>.
\<close>

definition dropped_add_creator :: "(string list \<times> string list) command_creator" where
  "dropped_add_creator = message_add_creator\<lparr>framework := ([], [])\<rparr>"

text \<open>A table in which the name \<^verbatim>\<open>a\<close> and the type \<^verbatim>\<open>int\<close> are keys of \<^verbatim>\<open>exiting\<close>.\<close>

definition exiting_creator :: "unit command_creator" where
  "exiting_creator =
     register_converter (KStr ''a'') exiting
       (register_converter (KAnn (Ty ''int'')) exiting (init ()))"

section \<open>Properties of binding and conversion\<close>

text \<open>
  Every exception raised by \<^verbatim>\<open>sig.bind\<close> is a \<^verbatim>\<open>TypeError\<close>, an instance of
  \<^verbatim>\<open>Exception\<close>.
\<close>

lemma bind_positional_raises_Exception:
  "bind_positional ps vs kw acc = Inl e \<Longrightarrow> is_Exception e"
  by (induction ps vs kw acc rule: bind_positional.induct)
     (auto simp: type_error_def split: if_splits)

lemma bind_keywords_raises_Exception:
  "bind_keywords ps kw acc = Inl e \<Longrightarrow> is_Exception e"
  by (induction ps kw acc rule: bind_keywords.induct)
     (auto simp: type_error_def split: if_splits option.splits)

lemma sig_bind_raises_Exception:
  "sig_bind sig args kw = Inl e \<Longrightarrow> is_Exception e"
  by (auto simp: sig_bind_def type_error_def split: sum.splits prod.splits list.splits
           dest: bind_positional_raises_Exception bind_keywords_raises_Exception)

text \<open>
  The conversion loop leaves the bound arguments as they are unless the name of a
  parameter is itself a key of the converter table.
\<close>

lemma apply_converters_no_name_key:
  "(\<And>p. p \<in> set ps \<Longrightarrow> cv (KStr (p_name p)) = None) \<Longrightarrow> apply_converters cv ps a = Inr a"
  by (induction ps arbitrary: a) auto

text \<open>
  A successful \<^verbatim>\<open>bind\<close> followed by \<^verbatim>\<open>apply_defaults\<close> binds every parameter, and the
  conversion loop keeps the set of bound names. So a wrapper calls the handler with one
  positional argument for each parameter and with no keywords.
\<close>

lemma bind_positional_keys:
  "bind_positional ps vs kw acc = Inr (acc', rest) \<Longrightarrow>
   \<exists>n. rest = drop n ps \<and> fst ` set acc' = fst ` set acc \<union> p_name ` set (take n ps)"
proof (induction ps vs kw acc rule: bind_positional.induct)
  case (1 kw acc)
  then show ?case by simp
next
  case (2 p ps kw acc)
  then have "rest = drop 0 (p # ps) \<and> fst ` set acc' = fst ` set acc \<union> p_name ` set (take 0 (p # ps))"
    by (auto split: if_splits)
  then show ?case by blast
next
  case (3 v vs kw acc)
  then show ?case by simp
next
  case (4 p ps v vs kw acc)
  then have "bind_positional ps vs kw (acc @ [(p_name p, v)]) = Inr (acc', rest)"
    by (auto split: if_splits)
  from "4.IH" [OF _ this] "4.prems" obtain n where
    n: "rest = drop n ps" "fst ` set acc' = fst ` set (acc @ [(p_name p, v)]) \<union> p_name ` set (take n ps)"
    by (auto split: if_splits)
  then have "rest = drop (Suc n) (p # ps)
     \<and> fst ` set acc' = fst ` set acc \<union> p_name ` set (take (Suc n) (p # ps))"
    by auto
  then show ?case by blast
qed

lemma bind_keywords_keys:
  "bind_keywords ps kw acc = Inr (acc', left) \<Longrightarrow>
   fst ` set acc \<subseteq> fst ` set acc'
   \<and> (\<forall>p \<in> set ps. p_name p \<in> fst ` set acc' \<or> p_default p \<noteq> None)"
proof (induction ps kw acc rule: bind_keywords.induct)
  case (1 kw acc)
  then show ?case by simp
next
  case (2 p ps kw acc)
  show ?case
  proof (cases "map_of kw (p_name p)")
    case None
    with "2.prems" have d: "p_default p \<noteq> None" and r: "bind_keywords ps kw acc = Inr (acc', left)"
      by (auto split: if_splits)
    from "2.IH"(1) [OF None _ r] d show ?thesis by auto
  next
    case (Some v)
    with "2.prems" have r: "bind_keywords ps (filter (\<lambda>kv. fst kv \<noteq> p_name p) kw)
        (acc @ [(p_name p, v)]) = Inr (acc', left)"
      by simp
    from "2.IH"(2) [OF Some r] show ?thesis by auto
  qed
qed

lemma sig_bind_keys:
  assumes "sig_bind sig args kw = Inr a"
  shows "\<forall>p \<in> set sig. p_name p \<in> fst ` set a \<or> p_default p \<noteq> None"
proof -
  from assms obtain acc rest left where
    pos: "bind_positional sig args kw [] = Inr (acc, rest)" and
    key: "bind_keywords rest kw acc = Inr (a, left)"
    by (auto simp: sig_bind_def split: sum.splits prod.splits list.splits)
  from bind_positional_keys [OF pos] obtain n where
    n: "rest = drop n sig" "fst ` set acc = p_name ` set (take n sig)"
    by auto
  from bind_keywords_keys [OF key] have
    k: "fst ` set acc \<subseteq> fst ` set a"
       "\<forall>p \<in> set rest. p_name p \<in> fst ` set a \<or> p_default p \<noteq> None"
    by auto
  show ?thesis
  proof
    fix p assume "p \<in> set sig"
    then have "p \<in> set (take n sig) \<or> p \<in> set (drop n sig)"
      by (metis Un_iff append_take_drop_id set_append)
    then show "p_name p \<in> fst ` set a \<or> p_default p \<noteq> None"
      using n k by auto
  qed
qed

lemma apply_defaults_keys:
  "fst ` set (apply_defaults ps a)
     = {p_name p | p. p \<in> set ps \<and> (p_name p \<in> fst ` set a \<or> p_default p \<noteq> None)}"
proof (induction ps)
  case Nil
  then show ?case by simp
next
  case (Cons p ps)
  show ?case
  proof (cases "map_of a (p_name p)")
    case None
    then have "p_name p \<notin> fst ` set a"
      by (simp add: map_of_eq_None_iff)
    with None Cons show ?thesis
      by (cases "p_default p") auto
  next
    case (Some v)
    then have "p_name p \<in> fst ` set a"
      by (metis map_of_eq_None_iff option.distinct(1))
    with Some Cons show ?thesis by auto
  qed
qed

lemma dict_set_keys: "k \<in> fst ` set a \<Longrightarrow> fst ` set (dict_set a k v) = fst ` set a"
  by (induction a) auto

lemma apply_converters_keys:
  "apply_converters cv ps a = Inr a' \<Longrightarrow> fst ` set a' = fst ` set a"
proof (induction ps arbitrary: a)
  case Nil
  then show ?case by simp
next
  case (Cons p ps)
  show ?case
  proof (cases "cv (KStr (p_name p)) \<noteq> None")
    case False
    with Cons show ?thesis by simp
  next
    case True
    with Cons.prems obtain v conv v' where
      v: "map_of a (p_name p) = Some v" and
      r: "apply_converters cv ps (dict_set a (p_name p) v') = Inr a'"
      by (auto split: option.splits sum.splits)
    from v have "p_name p \<in> fst ` set a"
      by (metis map_of_eq_None_iff option.distinct(1))
    with Cons.IH [OF r] show ?thesis
      by (simp add: dict_set_keys)
  qed
qed

lemma bound_args_all:
  "\<forall>p \<in> set ps. p_name p \<in> fst ` set a \<Longrightarrow>
   length (bound_args ps a) = length ps \<and> bound_kwargs False ps a = []"
proof (induction ps)
  case Nil
  then show ?case by simp
next
  case (Cons p ps)
  then obtain v where "map_of a (p_name p) = Some v"
    by (metis list.set_intros(1) map_of_eq_None_iff not_Some_eq)
  with Cons show ?case by simp
qed

lemma prepare_call_shape:
  assumes "prepare_call cr f args kw = Inr (pos, named)"
  shows "length pos = length (signature f) \<and> named = []"
proof -
  from assms obtain bound bound' where
    b: "sig_bind (signature f) (VCtx # args) kw = Inr bound" and
    c: "apply_converters (converters cr) (signature f) (apply_defaults (signature f) bound)
          = Inr bound'" and
    r: "pos = bound_args (signature f) bound'"
       "named = bound_kwargs False (signature f) bound'"
    by (auto simp: prepare_call_def split: sum.splits)
  have "\<forall>p \<in> set (signature f). p_name p \<in> fst ` set bound'"
    using sig_bind_keys [OF b] apply_converters_keys [OF c]
    by (auto simp: apply_defaults_keys)
  then show ?thesis
    using r bound_args_all by blast
qed

section \<open>Argument conversion (C1)\<close>

text \<open>
  C1 states that each bound parameter whose declared type has an entry in the converter
  table has its value replaced by the converter's result before the handler runs, and that
  a handler \<^verbatim>\<open>(ctx, a: int, b: int)\<close> with a doubling converter registered for \<^verbatim>\<open>int\<close>,
  invoked with \<^verbatim>\<open>(ctx, 3, 4)\<close>, is called with \<^verbatim>\<open>(ctx, 6, 8)\<close>.

  The wrapper tests \<^verbatim>\<open>name_ in self.converters\<close>, the parameter's name against a table
  keyed by types, so the test fails for \<^verbatim>\<open>a\<close> and \<^verbatim>\<open>b\<close>: with the doubling converter
  registered for \<^verbatim>\<open>int\<close>, \<^verbatim>\<open>add_slash\<close> is called with \<^verbatim>\<open>(interaction, 3, 4)\<close> and
  replies with the sum 7, not 14.
\<close>

theorem int_converter_not_applied:
  "prepare_call (register_converter (KAnn (Ty ''int'')) double (init ())) add_slash
     [Val (CInt 3), Val (CInt 4)] []
   = Inr ([VCtx, Val (CInt 3), Val (CInt 4)], [])
   \<and> slash_wrapper (register_converter (KAnn (Ty ''int'')) double (init ())) add_slash
       [Val (CInt 3), Val (CInt 4)] [] fresh_interaction
     = (None, \<lparr>kind = Interaction, is_done = True, sent = [''The sum is: 7'']\<rparr>)"
  by code_simp

section \<open>Slash commands need a description (C3)\<close>

text \<open>
  C3: \<^verbatim>\<open>slash_command\<close> called with an empty or absent description raises
  \<^verbatim>\<open>ValueError\<close> at once, before a decorator exists, and the creator, its command map
  included, is as before the call.
\<close>

theorem slash_command_requires_description:
  "descr = None \<or> descr = Some [] \<Longrightarrow>
   slash_command api name descr cr
     = (Inl (Exc ''ValueError'' ''Description is required for slash commands.''), cr)
   \<and> commands (snd (slash_command api name descr cr)) = commands cr"
  by (auto simp: slash_command_def)

theorem slash_command_requires_description_witness:
  "(Some [] = None \<or> Some [] = Some ([] :: string))
   \<and> slash_command recording ''add'' (Some []) (init ([], []))
     = (Inl (Exc ''ValueError'' ''Description is required for slash commands.''), init ([], []))
   \<and> slash_command recording ''add'' None (init ([], []))
     = (Inl (Exc ''ValueError'' ''Description is required for slash commands.''), init ([], []))"
  using slash_command_requires_description [of "Some []" recording "''add''" "init ([], [])"]
        slash_command_requires_description [of None recording "''add''" "init ([], [])"]
  by simp

section \<open>Help for an unknown name (C8)\<close>

text \<open>
  C8: for a name that is not a key of \<^verbatim>\<open>self.commands\<close>, \<^verbatim>\<open>generate_help\<close> returns
  exactly the string \<^verbatim>\<open>Command not found.\<close>
\<close>

theorem generate_help_unknown:
  "commands cr name = None \<Longrightarrow> generate_help cr name = ''Command not found.''"
  by (simp add: generate_help_def)

theorem generate_help_unknown_witness:
  "commands (init ()) ''add'' = None \<and> generate_help (init ()) ''add'' = ''Command not found.''"
  using generate_help_unknown [of "init ()" "''add''"]
  by (simp add: init_def)

section \<open>The arguments section of a help text (C2)\<close>

text \<open>
  No line before the arguments section is the line \<^verbatim>\<open>"\nArguments:"\<close>, so the section
  is what follows the first such line of the message.
\<close>

lemma str_nat_digit: "n < 10 \<Longrightarrow> str_nat n = [''0123456789'' ! n]"
  by (simp add: str_nat.simps)







section \<open>Registering a name again (C4)\<close>

text \<open>
  C4 as stated: registering a command under a name that is already a key of
  \<^verbatim>\<open>self.commands\<close> replaces the entry. Both decorators first apply the framework's own
  decorator (\<^verbatim>\<open>self.tree.command\<close>, \<^verbatim>\<open>self.bot.command\<close>) and assign the entry after
  it. discord.py refuses a name that its registry already holds, so registering the
  message command \<^verbatim>\<open>add\<close> of the module's example a second time, with other aliases
  and another description, raises \<^verbatim>\<open>CommandRegistrationError\<close> from the decorator and
  the entry keeps the old aliases and the old description.
\<close>

theorem reregistration_refused:
  "commands message_add_creator ''add''
     = Some \<lparr>cmd_type = Message, aliases = Some [''sum''],
             description = Some ''Adds two numbers'', func = add_message\<rparr>
   \<and> fst (message_decorator recording ''add'' (Some [''plus'']) (Some ''Sum'') add_message
            message_add_creator)
       = Some (Exc ''CommandRegistrationError''
                 ''The command add is already an existing command or alias.'')
   \<and> commands (snd (message_decorator recording ''add'' (Some [''plus'']) (Some ''Sum'')
                       add_message message_add_creator)) ''add''
       = Some \<lparr>cmd_type = Message, aliases = Some [''sum''],
               description = Some ''Adds two numbers'', func = add_message\<rparr>"
  by (simp add: message_add_creator_def message_decorator_def recording_def init_def
        or_empty_def)

text \<open>
  C4 as amended: for a name that is already a key of \<^verbatim>\<open>self.commands\<close>,
  \<^item> when the framework's registration call accepts, either decorator assigns a new entry
    to the name, built from the arguments of the new registration alone (a slash entry
    has no aliases, a message entry has the new aliases and description); every other
    name keeps its entry and the set of names is as before;
  \<^item> when the framework's registration call raises, the decorator raises the same
    exception and \<^verbatim>\<open>self.commands\<close> is unchanged: the name keeps its old entry.
\<close>

theorem reregistration_overwrites:
  assumes "commands cr name = Some old"
  shows "(tree_command api name d (framework cr) = (None, fw) \<longrightarrow>
            slash_decorator api name d f cr
              = (None, cr\<lparr>framework := fw,
                          commands := (commands cr)(name \<mapsto>
                            \<lparr>cmd_type = Slash, aliases = None, description = Some d,
                             func = f\<rparr>)\<rparr>)
            \<and> dom (commands (snd (slash_decorator api name d f cr))) = dom (commands cr))
       \<and> (tree_command api name d (framework cr) = (Some e, fw) \<longrightarrow>
            slash_decorator api name d f cr = (Some e, cr\<lparr>framework := fw\<rparr>)
            \<and> commands (snd (slash_decorator api name d f cr)) = commands cr
            \<and> commands (snd (slash_decorator api name d f cr)) name = Some old)
       \<and> (bot_command api name (or_empty al) descr (framework cr) = (None, fw) \<longrightarrow>
            message_decorator api name al descr f cr
              = (None, cr\<lparr>framework := fw,
                          commands := (commands cr)(name \<mapsto>
                            \<lparr>cmd_type = Message, aliases = Some (or_empty al),
                             description = descr, func = f\<rparr>)\<rparr>)
            \<and> dom (commands (snd (message_decorator api name al descr f cr)))
                = dom (commands cr))
       \<and> (bot_command api name (or_empty al) descr (framework cr) = (Some e, fw) \<longrightarrow>
            message_decorator api name al descr f cr = (Some e, cr\<lparr>framework := fw\<rparr>)
            \<and> commands (snd (message_decorator api name al descr f cr)) = commands cr
            \<and> commands (snd (message_decorator api name al descr f cr)) name = Some old)"
  using assms by (auto simp: slash_decorator_def message_decorator_def)

text \<open>
  The four cases at concrete registrations: the message command \<^verbatim>\<open>add\<close> registered again
  after the bot dropped it (accepted: the new aliases and description replace the old
  ones); the same registration while the bot still holds the name (refused: the old entry
  stays); a slash command \<^verbatim>\<open>add\<close> registered over the message entry (accepted by the
  command tree of the example framework, which does not hold the name); and a slash
  command registered twice (refused).
\<close>

theorem reregistration_overwrites_witness:
  "commands dropped_add_creator ''add''
     = Some \<lparr>cmd_type = Message, aliases = Some [''sum''],
             description = Some ''Adds two numbers'', func = add_message\<rparr>
   \<and> bot_command recording ''add'' (or_empty (Some [''plus''])) (Some ''Sum'')
         (framework dropped_add_creator)
       = (None, ([], [''add'']))
   \<and> commands (snd (message_decorator recording ''add'' (Some [''plus'']) (Some ''Sum'')
                       add_message dropped_add_creator)) ''add''
       = Some \<lparr>cmd_type = Message, aliases = Some [''plus''], description = Some ''Sum'',
               func = add_message\<rparr>
   \<and> bot_command recording ''add'' (or_empty (Some [''plus''])) (Some ''Sum'')
         (framework message_add_creator)
       = (Some (Exc ''CommandRegistrationError''
                  ''The command add is already an existing command or alias.''),
          ([], [''add'']))
   \<and> commands (snd (message_decorator recording ''add'' (Some [''plus'']) (Some ''Sum'')
                       add_message message_add_creator)) ''add''
       = Some \<lparr>cmd_type = Message, aliases = Some [''sum''],
               description = Some ''Adds two numbers'', func = add_message\<rparr>
   \<and> tree_command recording ''add'' ''Sum'' (framework message_add_creator)
       = (None, ([''add''], [''add'']))
   \<and> commands (snd (slash_decorator recording ''add'' ''Sum'' add_slash message_add_creator))
         ''add''
       = Some \<lparr>cmd_type = Slash, aliases = None, description = Some ''Sum'', func = add_slash\<rparr>
   \<and> commands slash_add_creator ''add''
       = Some \<lparr>cmd_type = Slash, aliases = None, description = Some ''Adds two numbers'',
               func = add_slash\<rparr>
   \<and> tree_command recording ''add'' ''Sum'' (framework slash_add_creator)
       = (Some (Exc ''CommandAlreadyRegistered''
                  (''Command '' @ quoted ''add'' @ '' already registered.'')),
          ([''add''], []))
   \<and> commands (snd (slash_decorator recording ''add'' ''Sum'' add_slash slash_add_creator))
         ''add''
       = Some \<lparr>cmd_type = Slash, aliases = None, description = Some ''Adds two numbers'',
               func = add_slash\<rparr>"
proof -
  have m: "commands message_add_creator ''add''
     = Some \<lparr>cmd_type = Message, aliases = Some [''sum''],
             description = Some ''Adds two numbers'', func = add_message\<rparr>"
    by (simp add: message_add_creator_def message_decorator_def recording_def init_def
          or_empty_def)
  have dm: "commands dropped_add_creator ''add''
     = Some \<lparr>cmd_type = Message, aliases = Some [''sum''],
             description = Some ''Adds two numbers'', func = add_message\<rparr>"
    by (simp add: dropped_add_creator_def m)
  have s: "commands slash_add_creator ''add''
       = Some \<lparr>cmd_type = Slash, aliases = None, description = Some ''Adds two numbers'',
               func = add_slash\<rparr>"
    by (simp add: slash_add_creator_def slash_decorator_def recording_def init_def)
  have accept_bot: "bot_command recording ''add'' (or_empty (Some [''plus''])) (Some ''Sum'')
         (framework dropped_add_creator) = (None, ([], [''add'']))"
    by (simp add: dropped_add_creator_def recording_def)
  have refuse_bot: "bot_command recording ''add'' (or_empty (Some [''plus''])) (Some ''Sum'')
         (framework message_add_creator)
       = (Some (Exc ''CommandRegistrationError''
                  ''The command add is already an existing command or alias.''),
          ([], [''add'']))"
    by (simp add: message_add_creator_def message_decorator_def recording_def init_def
          or_empty_def)
  have accept_tree: "tree_command recording ''add'' ''Sum'' (framework message_add_creator)
       = (None, ([''add''], [''add'']))"
    by (simp add: message_add_creator_def message_decorator_def recording_def init_def
          or_empty_def)
  have refuse_tree: "tree_command recording ''add'' ''Sum'' (framework slash_add_creator)
       = (Some (Exc ''CommandAlreadyRegistered''
                  (''Command '' @ quoted ''add'' @ '' already registered.'')),
          ([''add''], []))"
    by (simp add: slash_add_creator_def slash_decorator_def recording_def init_def)
  note replaced_message =
    reregistration_overwrites [OF dm, THEN conjunct2, THEN conjunct2, THEN conjunct1,
      THEN mp, OF accept_bot, THEN conjunct1]
  note kept_message =
    reregistration_overwrites [OF m, THEN conjunct2, THEN conjunct2, THEN conjunct2,
      THEN mp, OF refuse_bot, THEN conjunct2, THEN conjunct2]
  note replaced_slash =
    reregistration_overwrites [OF m, THEN conjunct1, THEN mp, OF accept_tree, THEN conjunct1]
  note kept_slash =
    reregistration_overwrites [OF s, THEN conjunct2, THEN conjunct1, THEN mp, OF refuse_tree,
      THEN conjunct2, THEN conjunct2]
  have g1: "commands (snd (message_decorator recording ''add'' (Some [''plus'']) (Some ''Sum'')
                       add_message dropped_add_creator)) ''add''
       = Some \<lparr>cmd_type = Message, aliases = Some [''plus''], description = Some ''Sum'',
               func = add_message\<rparr>"
    by (simp add: replaced_message or_empty_def)
  have g2: "commands (snd (slash_decorator recording ''add'' ''Sum'' add_slash
                       message_add_creator)) ''add''
       = Some \<lparr>cmd_type = Slash, aliases = None, description = Some ''Sum'', func = add_slash\<rparr>"
    by (simp add: replaced_slash)
  show ?thesis
    by (intro conjI) (rule dm accept_bot g1 refuse_bot kept_message accept_tree g2 s
        refuse_tree kept_slash)+
qed

section \<open>The default error policy (C5)\<close>

text \<open>
  C5: with no custom error handler, \<^verbatim>\<open>_handle_error\<close> raises nothing; an interaction that
  is already done is left as it is, with no reply; any other context gets exactly one
  reply, the text \<^verbatim>\<open>Error: \<close> followed by \<^verbatim>\<open>str(error)\<close> (which marks an interaction as
  done).
\<close>

theorem default_error_policy:
  assumes "error_handler cr = None"
  shows "handle_error cr e c
     = (if kind c = Interaction \<and> is_done c then (None, c)
        else if kind c = Interaction
        then (None, c\<lparr>is_done := True, sent := sent c @ [''Error: '' @ str_exn e]\<rparr>)
        else (None, c\<lparr>sent := sent c @ [''Error: '' @ str_exn e]\<rparr>))"
  using assms by (simp add: handle_error_def response_send_message_def send_def)

theorem default_error_policy_witness:
  "error_handler (init ()) = None
   \<and> handle_error (init ()) (Exc ''ValueError'' ''bad input'') fresh_interaction
       = (None, \<lparr>kind = Interaction, is_done = True, sent = [''Error: bad input'']\<rparr>)
   \<and> handle_error (init ()) (Exc ''ValueError'' ''bad input'') fresh_context
       = (None, \<lparr>kind = Context, is_done = False, sent = [''Error: bad input'']\<rparr>)
   \<and> handle_error (init ()) (Exc ''ValueError'' ''bad input'') done_interaction
       = (None, done_interaction)"
proof -
  have h: "error_handler (init ()) = None"
    by (simp add: init_def)
  from default_error_policy [OF h, of "Exc ''ValueError'' ''bad input''" fresh_interaction]
       default_error_policy [OF h, of "Exc ''ValueError'' ''bad input''" fresh_context]
       default_error_policy [OF h, of "Exc ''ValueError'' ''bad input''" done_interaction]
       h
  show ?thesis
    by (simp add: fresh_interaction_def fresh_context_def done_interaction_def)
qed

section \<open>What the wrappers catch (C6)\<close>

text \<open>
  C6 as stated: any failure raised during binding, conversion or the handler body is caught
  in the wrapper and given to the error policy, and escapes only if the policy itself
  fails. The wrappers catch with \<^verbatim>\<open>except Exception\<close>, which leaves out the exceptions
  that derive from \<^verbatim>\<open>BaseException\<close> alone. A handler that raises
  \<^verbatim>\<open>KeyboardInterrupt\<close> shows it: the default policy would reply without raising, yet
  both wrappers let the exception out and send nothing.
\<close>

theorem base_exception_escapes:
  "try_block (init ()) (raising (BaseExc ''KeyboardInterrupt'' [])) [] [] fresh_context
     = (Some (BaseExc ''KeyboardInterrupt'' []), fresh_context)
   \<and> handle_error (init ()) (BaseExc ''KeyboardInterrupt'' []) fresh_context
       = (None, \<lparr>kind = Context, is_done = False, sent = [''Error: '']\<rparr>)
   \<and> message_wrapper (init ()) (raising (BaseExc ''KeyboardInterrupt'' [])) [] [] fresh_context
       = (Some (BaseExc ''KeyboardInterrupt'' []), fresh_context)
   \<and> slash_wrapper (init ()) (raising (BaseExc ''KeyboardInterrupt'' [])) [] [] fresh_interaction
       = (Some (BaseExc ''KeyboardInterrupt'' []), fresh_interaction)"
  by (simp add: try_block_def prepare_call_def sig_bind_def raising_def init_def
        handle_error_def send_def message_wrapper_def slash_wrapper_def fresh_context_def
        fresh_interaction_def)

text \<open>
  C6 as amended. A failure of binding is always delegated (it is a \<^verbatim>\<open>TypeError\<close>). An
  exception raised anywhere in the \<^verbatim>\<open>try\<close> block (binding, conversion or the handler
  body) that is an instance of \<^verbatim>\<open>Exception\<close> is delegated to \<^verbatim>\<open>_handle_error\<close> with
  the context as the block left it: the wrapper's outcome is the error policy's, and the
  wrapper raises only if the policy does. An exception that is not an instance of
  \<^verbatim>\<open>Exception\<close> leaves the wrapper as it was raised, with the context as the block left
  it: the error policy is not run. A block that returns makes the wrapper return. The
  last two conjuncts say where the block's exception comes from: a converter that raises
  (or a key that is missing) ends the block with that exception and the context
  untouched, and otherwise the block is the call of the handler's body.
\<close>

theorem wrapper_delegates_Exception:
  "(sig_bind (signature f) (VCtx # args) kw = Inl e \<longrightarrow>
      slash_wrapper cr f args kw c = handle_error cr e c
      \<and> message_wrapper cr f args kw c = handle_error cr e c)
   \<and> (try_block cr f args kw c = (Some e, c') \<and> is_Exception e \<longrightarrow>
        slash_wrapper cr f args kw c = handle_error cr e c'
        \<and> message_wrapper cr f args kw c = handle_error cr e c')
   \<and> (try_block cr f args kw c = (Some e, c') \<and> \<not> is_Exception e \<longrightarrow>
        slash_wrapper cr f args kw c = (Some e, c')
        \<and> message_wrapper cr f args kw c = (Some e, c'))
   \<and> (try_block cr f args kw c = (None, c') \<longrightarrow>
        slash_wrapper cr f args kw c = (None, c')
        \<and> message_wrapper cr f args kw c = (None, c'))
   \<and> (sig_bind (signature f) (VCtx # args) kw = Inr bound
        \<and> apply_converters (converters cr) (signature f) (apply_defaults (signature f) bound)
            = Inl e \<longrightarrow>
        try_block cr f args kw c = (Some e, c))
   \<and> (prepare_call cr f args kw = Inr (pos, named) \<longrightarrow>
        try_block cr f args kw c = body f pos named c)"
proof -
  have bind: "slash_wrapper cr f args kw c = handle_error cr e c
      \<and> message_wrapper cr f args kw c = handle_error cr e c"
    if "sig_bind (signature f) (VCtx # args) kw = Inl e"
  proof -
    from that have "is_Exception e"
      by (rule sig_bind_raises_Exception)
    moreover from that have "try_block cr f args kw c = (Some e, c)"
      by (simp add: try_block_def prepare_call_def)
    ultimately show ?thesis
      by (simp add: slash_wrapper_def message_wrapper_def)
  qed
  have conv: "try_block cr f args kw c = (Some e, c)"
    if "sig_bind (signature f) (VCtx # args) kw = Inr bound"
      and "apply_converters (converters cr) (signature f) (apply_defaults (signature f) bound)
            = Inl e"
    using that by (simp add: try_block_def prepare_call_def)
  have call: "try_block cr f args kw c = body f pos named c"
    if "prepare_call cr f args kw = Inr (pos, named)"
    using that by (simp add: try_block_def)
  show ?thesis
    using bind conv call by (simp add: slash_wrapper_def message_wrapper_def)
qed

text \<open>
  Each case at a concrete call: \<^verbatim>\<open>add_message\<close> with an argument missing (binding);
  a handler that raises \<^verbatim>\<open>RuntimeError\<close> (delegated); a handler that raises
  \<^verbatim>\<open>KeyboardInterrupt\<close> and a converter that raises \<^verbatim>\<open>SystemExit\<close> (both leave the
  wrapper, nothing is sent); and \<^verbatim>\<open>add_slash\<close> returning.
\<close>

theorem wrapper_delegates_Exception_witness:
  "sig_bind (signature add_message) [VCtx, Val (CInt 3)] []
     = Inl (Exc ''TypeError'' (''missing a required argument: '' @ quoted ''b''))
   \<and> message_wrapper (init ()) add_message [Val (CInt 3)] [] fresh_context
       = (None, \<lparr>kind = Context, is_done = False,
                 sent = [''Error: missing a required argument: '' @ quoted ''b'']\<rparr>)
   \<and> try_block (init ()) (raising (Exc ''RuntimeError'' ''boom'')) [] [] fresh_interaction
       = (Some (Exc ''RuntimeError'' ''boom''), fresh_interaction)
   \<and> is_Exception (Exc ''RuntimeError'' ''boom'')
   \<and> slash_wrapper (init ()) (raising (Exc ''RuntimeError'' ''boom'')) [] [] fresh_interaction
       = (None, \<lparr>kind = Interaction, is_done = True, sent = [''Error: boom'']\<rparr>)
   \<and> try_block (init ()) (raising (BaseExc ''KeyboardInterrupt'' [])) [] [] fresh_interaction
       = (Some (BaseExc ''KeyboardInterrupt'' []), fresh_interaction)
   \<and> \<not> is_Exception (BaseExc ''KeyboardInterrupt'' [])
   \<and> slash_wrapper (init ()) (raising (BaseExc ''KeyboardInterrupt'' [])) [] []
         fresh_interaction
       = (Some (BaseExc ''KeyboardInterrupt'' []), fresh_interaction)
   \<and> sig_bind (signature add_slash) [VCtx, Val (CInt 3), Val (CInt 4)] []
       = Inr [(''interaction'', VCtx), (''a'', Val (CInt 3)), (''b'', Val (CInt 4))]
   \<and> apply_converters (converters exiting_creator) (signature add_slash)
         (apply_defaults (signature add_slash)
            [(''interaction'', VCtx), (''a'', Val (CInt 3)), (''b'', Val (CInt 4))])
       = Inl (BaseExc ''SystemExit'' [])
   \<and> slash_wrapper exiting_creator add_slash [Val (CInt 3), Val (CInt 4)] [] fresh_interaction
       = (Some (BaseExc ''SystemExit'' []), fresh_interaction)
   \<and> try_block (init ()) add_slash [Val (CInt 3), Val (CInt 4)] [] fresh_interaction
       = (None, \<lparr>kind = Interaction, is_done = True, sent = [''The sum is: 7'']\<rparr>)
   \<and> slash_wrapper (init ()) add_slash [Val (CInt 3), Val (CInt 4)] [] fresh_interaction
       = (None, \<lparr>kind = Interaction, is_done = True, sent = [''The sum is: 7'']\<rparr>)"
proof -
  have b: "sig_bind (signature add_message) (VCtx # [Val (CInt 3)]) []
     = Inl (Exc ''TypeError'' (''missing a required argument: '' @ quoted ''b''))"
    by (simp add: sig_bind_def add_message_def type_error_def)
  have r: "try_block (init ()) (raising (Exc ''RuntimeError'' ''boom'')) [] [] fresh_interaction
       = (Some (Exc ''RuntimeError'' ''boom''), fresh_interaction)
       \<and> is_Exception (Exc ''RuntimeError'' ''boom'')"
    by (simp add: try_block_def prepare_call_def sig_bind_def raising_def init_def)
  have k: "try_block (init ()) (raising (BaseExc ''KeyboardInterrupt'' [])) [] []
         fresh_interaction
       = (Some (BaseExc ''KeyboardInterrupt'' []), fresh_interaction)
       \<and> \<not> is_Exception (BaseExc ''KeyboardInterrupt'' [])"
    by (simp add: try_block_def prepare_call_def sig_bind_def raising_def init_def)
  have sb: "sig_bind (signature add_slash) (VCtx # [Val (CInt 3), Val (CInt 4)]) []
       = Inr [(''interaction'', VCtx), (''a'', Val (CInt 3)), (''b'', Val (CInt 4))]"
    by (simp add: sig_bind_def add_slash_def)
  have cv: "apply_converters (converters exiting_creator) (signature add_slash)
         (apply_defaults (signature add_slash)
            [(''interaction'', VCtx), (''a'', Val (CInt 3)), (''b'', Val (CInt 4))])
       = Inl (BaseExc ''SystemExit'' [])"
    by (simp add: exiting_creator_def register_converter_def init_def add_slash_def
          exiting_def)
  have ok: "try_block (init ()) add_slash [Val (CInt 3), Val (CInt 4)] [] fresh_interaction
       = (None, \<lparr>kind = Interaction, is_done = True, sent = [''The sum is: 7'']\<rparr>)"
    by code_simp
  have x: "try_block exiting_creator add_slash [Val (CInt 3), Val (CInt 4)] []
         fresh_interaction = (Some (BaseExc ''SystemExit'' []), fresh_interaction)
       \<and> \<not> is_Exception (BaseExc ''SystemExit'' [])"
    using wrapper_delegates_Exception
      [THEN conjunct2, THEN conjunct2, THEN conjunct2, THEN conjunct2, THEN conjunct1,
       THEN mp, OF conjI, OF sb cv]
    by simp
  note bound = wrapper_delegates_Exception [THEN conjunct1, THEN mp, OF b, THEN conjunct2]
  note raised = wrapper_delegates_Exception
    [THEN conjunct2, THEN conjunct1, THEN mp, OF r, THEN conjunct1]
  note escaped = wrapper_delegates_Exception
    [THEN conjunct2, THEN conjunct2, THEN conjunct1, THEN mp, OF k, THEN conjunct1]
  note exited = wrapper_delegates_Exception
    [THEN conjunct2, THEN conjunct2, THEN conjunct1, THEN mp, OF x, THEN conjunct1]
  note returned = wrapper_delegates_Exception
    [THEN conjunct2, THEN conjunct2, THEN conjunct2, THEN conjunct1, THEN mp, OF ok,
     THEN conjunct1]
  have h1: "handle_error (init ()) e fresh_context
    = (None, \<lparr>kind = Context, is_done = False, sent = [''Error: '' @ str_exn e]\<rparr>)" for e
    by (simp add: handle_error_def init_def fresh_context_def send_def)
  have h2: "handle_error (init ()) e fresh_interaction
     = (None, \<lparr>kind = Interaction, is_done = True, sent = [''Error: '' @ str_exn e]\<rparr>)" for e
    by (simp add: handle_error_def init_def fresh_interaction_def response_send_message_def)
  show ?thesis
    using b r k sb cv ok by (simp add: bound raised escaped exited returned h1 h2)
qed

section \<open>Custom error handlers (C7, C9)\<close>

text \<open>
  C7: \<^verbatim>\<open>set_error_handler\<close> stores its argument in the single slot, whatever was there
  before, and from then on \<^verbatim>\<open>_handle_error\<close> is the call of that handler: its outcome,
  a raised exception included, is the outcome of \<^verbatim>\<open>_handle_error\<close> and of the wrapper
  that called it from its \<^verbatim>\<open>except\<close> clause.
\<close>

theorem set_error_handler_sole_sink:
  "error_handler (set_error_handler h cr) = Some h
   \<and> error_handler (set_error_handler h (set_error_handler h0 cr)) = Some h
   \<and> handle_error (set_error_handler h cr) e c = h e c
   \<and> slash_wrapper (set_error_handler h cr) f args kw c
       = (case try_block (set_error_handler h cr) f args kw c of
            (None, c') \<Rightarrow> (None, c')
          | (Some e', c') \<Rightarrow> (if is_Exception e' then h e' c' else (Some e', c')))
   \<and> message_wrapper (set_error_handler h cr) f args kw c
       = (case try_block (set_error_handler h cr) f args kw c of
            (None, c') \<Rightarrow> (None, c')
          | (Some e', c') \<Rightarrow> (if is_Exception e' then h e' c' else (Some e', c')))"
  by (simp add: set_error_handler_def handle_error_def slash_wrapper_def message_wrapper_def
        split: prod.splits option.splits)

theorem set_error_handler_sole_sink_witness:
  "error_handler (set_error_handler broken (set_error_handler reporting (init ()))) = Some broken
   \<and> handle_error (set_error_handler broken (set_error_handler reporting (init ())))
         (Exc ''ValueError'' ''bad input'') fresh_interaction
       = (Some (Exc ''RuntimeError'' ''handler broke''), fresh_interaction)
   \<and> slash_wrapper (set_error_handler broken (init ())) (raising (Exc ''ValueError'' ''bad input''))
         [] [] fresh_interaction
       = (Some (Exc ''RuntimeError'' ''handler broke''), fresh_interaction)"
proof -
  have t: "try_block (set_error_handler broken (init ())) (raising (Exc ''ValueError'' ''bad input''))
         [] [] fresh_interaction = (Some (Exc ''ValueError'' ''bad input''), fresh_interaction)"
    by (simp add: try_block_def prepare_call_def sig_bind_def raising_def init_def
          set_error_handler_def)
  from set_error_handler_sole_sink
         [where h = broken and cr = "set_error_handler reporting (init ())"
            and e = "Exc ''ValueError'' ''bad input''" and c = fresh_interaction]
       set_error_handler_sole_sink
         [where h = broken and cr = "init ()" and c = fresh_interaction
            and f = "raising (Exc ''ValueError'' ''bad input'')" and args = "[]" and kw = "[]"]
  show ?thesis
    by (simp add: t broken_def)
qed

text \<open>
  C9: when a custom handler is set, \<^verbatim>\<open>_handle_error\<close> calls it for every error and
  every context; \<^verbatim>\<open>is_done\<close> is consulted by the default policy only. On a responded
  interaction the default policy is silent, while a custom handler that answers through
  \<^verbatim>\<open>response.send_message\<close> is called and runs into \<^verbatim>\<open>InteractionResponded\<close>.
\<close>

theorem custom_handler_unconditional:
  assumes "error_handler cr = Some h"
  shows "handle_error cr e c = h e c"
  using assms by (simp add: handle_error_def)

theorem custom_handler_unconditional_witness:
  "error_handler (set_error_handler reporting (init ())) = Some reporting
   \<and> is_done done_interaction
   \<and> handle_error (set_error_handler reporting (init ())) (Exc ''ValueError'' ''bad input'')
         done_interaction
       = (Some (Exc ''InteractionResponded''
                  ''This interaction has already been responded to before''),
          done_interaction)
   \<and> handle_error (init ()) (Exc ''ValueError'' ''bad input'') done_interaction
       = (None, done_interaction)"
proof -
  have h: "error_handler (set_error_handler reporting (init ())) = Some reporting"
    by (simp add: set_error_handler_def)
  have d: "handle_error (init ()) (Exc ''ValueError'' ''bad input'') done_interaction
       = (None, done_interaction)"
    by (simp add: handle_error_def init_def done_interaction_def)
  from custom_handler_unconditional [OF h, of "Exc ''ValueError'' ''bad input''" done_interaction]
       h d
  show ?thesis
    by (simp add: reporting_def response_send_message_def done_interaction_def)
qed

section \<open>A message command with an empty description (C10)\<close>

lemma argument_lines_no_description:
  "l \<in> set (argument_lines cv ps) \<Longrightarrow> \<not> prefix ''Description:'' l"
  by (auto simp: argument_lines_def param_line_def)

text \<open>
  C10: \<^verbatim>\<open>message_command\<close> with the description \<^verbatim>\<open>""\<close> returns its decorator (nothing is
  validated); when the framework accepts the registration the entry stores the empty
  string, and the help message of the command has no line that starts with
  \<^verbatim>\<open>Description:\<close>: it is the message of the same command registered with the
  description \<^verbatim>\<open>None\<close>.
\<close>

theorem message_command_empty_description:
  assumes "bot_command api name (or_empty al) (Some []) (framework cr) = (None, fw)"
  shows "message_command api name al (Some []) cr
           = (Inr (message_decorator api name al (Some [])), cr)
    \<and> message_decorator api name al (Some []) f cr
        = (None, cr\<lparr>framework := fw,
                    commands := (commands cr)(name \<mapsto>
                      \<lparr>cmd_type = Message, aliases = Some (or_empty al),
                       description = Some [], func = f\<rparr>)\<rparr>)
    \<and> generate_help (snd (message_decorator api name al (Some []) f cr)) name
        = join [CHR 0x0A]
            (help_message (converters cr) name
               \<lparr>cmd_type = Message, aliases = Some (or_empty al), description = Some [],
                func = f\<rparr>)
    \<and> (\<forall>l \<in> set (help_message (converters cr) name
                     \<lparr>cmd_type = Message, aliases = Some (or_empty al),
                      description = Some [], func = f\<rparr>).
          \<not> prefix ''Description:'' l)
    \<and> help_message (converters cr) name
          \<lparr>cmd_type = Message, aliases = Some (or_empty al), description = Some [], func = f\<rparr>
        = help_message (converters cr) name
            \<lparr>cmd_type = Message, aliases = Some (or_empty al), description = None, func = f\<rparr>"
proof -
  let ?cd = "\<lparr>cmd_type = Message, aliases = Some (or_empty al), description = Some [],
              func = f\<rparr>"
  have reg: "message_decorator api name al (Some []) f cr
        = (None, cr\<lparr>framework := fw, commands := (commands cr)(name \<mapsto> ?cd)\<rparr>)"
    using assms by (simp add: message_decorator_def)
  have shown: "generate_help (snd (message_decorator api name al (Some []) f cr)) name
        = join [CHR 0x0A] (help_message (converters cr) name ?cd)"
    by (simp add: reg generate_help_def)
  have none: "\<not> prefix ''Description:'' l" if "l \<in> set (help_message (converters cr) name ?cd)" for l
    using that
    by (auto simp: help_message_def description_lines_def aliases_lines_def
          dest: argument_lines_no_description split: if_splits)
  have same: "help_message (converters cr) name ?cd
        = help_message (converters cr) name
            \<lparr>cmd_type = Message, aliases = Some (or_empty al), description = None, func = f\<rparr>"
    by (simp add: help_message_def description_lines_def aliases_lines_def)
  show ?thesis
    using reg shown none same by (simp add: message_command_def)
qed

theorem message_command_empty_description_witness:
  "bot_command recording ''greet'' (or_empty (Some [''hi''])) (Some []) (framework (init ([], [])))
     = (None, ([], [''greet'']))
   \<and> fst (message_command recording ''greet'' (Some [''hi'']) (Some []) (init ([], [])))
       = Inr (message_decorator recording ''greet'' (Some [''hi'']) (Some []))
   \<and> fst (message_decorator recording ''greet'' (Some [''hi'']) (Some []) greet (init ([], [])))
       = None
   \<and> generate_help
         (snd (message_decorator recording ''greet'' (Some [''hi'']) (Some []) greet
                 (init ([], []))))
         ''greet''
       = ''**greet**\<newline>Type: Message Command\<newline>Aliases: hi\<newline>\<newline>Arguments:\<newline>- `name`: str (Optional (default: world))\<newline>- `times`: Any (Optional (default: 2))''"
proof -
  have b: "bot_command recording ''greet'' (or_empty (Some [''hi''])) (Some [])
             (framework (init ([], []))) = (None, ([], [''greet'']))"
    by (simp add: recording_def init_def or_empty_def)
  note facts = message_command_empty_description [OF b, of greet]
  have ev: "join [CHR 0x0A]
      (help_message (converters (init ([], []))) ''greet''
         \<lparr>cmd_type = Message, aliases = Some (or_empty (Some [''hi''])), description = Some [],
          func = greet\<rparr>)
    = ''**greet**\<newline>Type: Message Command\<newline>Aliases: hi\<newline>\<newline>Arguments:\<newline>- `name`: str (Optional (default: world))\<newline>- `times`: Any (Optional (default: 2))''"
    by (simp add: init_def or_empty_def greet_def help_message_def description_lines_def
          aliases_lines_def argument_lines_def param_line_def param_type_def default_str_def
          converter_note_def skipped_def str_int_def str_nat_digit)
  have g1: "fst (message_command recording ''greet'' (Some [''hi'']) (Some []) (init ([], [])))
       = Inr (message_decorator recording ''greet'' (Some [''hi'']) (Some []))"
    by (simp only: facts [THEN conjunct1] fst_conv)
  have g2: "fst (message_decorator recording ''greet'' (Some [''hi'']) (Some []) greet
                   (init ([], []))) = None"
    by (simp only: facts [THEN conjunct2, THEN conjunct1] fst_conv)
  have g3: "generate_help
         (snd (message_decorator recording ''greet'' (Some [''hi'']) (Some []) greet
                 (init ([], []))))
         ''greet''
       = ''**greet**\<newline>Type: Message Command\<newline>Aliases: hi\<newline>\<newline>Arguments:\<newline>- `name`: str (Optional (default: world))\<newline>- `times`: Any (Optional (default: 2))''"
    by (simp only: facts [THEN conjunct2, THEN conjunct2, THEN conjunct1] ev)
  show ?thesis
    by (intro conjI) (rule b g1 g2 g3)+
qed

end
